theory Spec2Isabelle
  imports Complex_Main
begin

section \<open>Tables, cells and errors\<close>

text \<open>
  Both scripts work on a pandas table read from a CSV file. A cell of such a table is a
  missing value (NaN, NaT or None: whatever \<^verbatim>\<open>pd.isna\<close> accepts), a text, a number or
  a timestamp. A timestamp is the reading of its own wall clock in nanoseconds, with the
  time zone it carries, if any; \<^verbatim>\<open>tz_localize(None)\<close> drops the zone and keeps the
  reading. Numbers and durations are exact (Python floats are idealised as reals, and the
  64-bit range of pandas timestamps is not modelled); texts are ASCII.
\<close>

record timestamp =
  wall_ns :: int
  tzinfo :: "string option"

datatype cell = Missing | Str string | Num real | Ts timestamp

datatype error = KeyError string | AttributeError | TypeError | ReadError

text \<open>
  A table has its column labels, in order, and its rows; a row gives the cell under every
  label, and only the labels listed in \<open>columns\<close> exist. A \<open>series\<close> is one row as
  \<^verbatim>\<open>df.apply(f, axis=1)\<close> hands it to \<open>f\<close>: a lookup of an absent label is
  \<open>None\<close> and raises \<^verbatim>\<open>KeyError\<close>.
\<close>

record dataframe =
  columns :: "string list"
  rows :: "(string \<Rightarrow> cell) list"

type_synonym series = "string \<Rightarrow> cell option"

definition isna :: "cell \<Rightarrow> bool" where
  "isna c = (c = Missing)"

definition getitem :: "series \<Rightarrow> string \<Rightarrow> error + cell" where
  "getitem row c = (case row c of None \<Rightarrow> Inl (KeyError c) | Some v \<Rightarrow> Inr v)"

definition row_series :: "dataframe \<Rightarrow> (string \<Rightarrow> cell) \<Rightarrow> series" where
  "row_series df r = (\<lambda>c. if c \<in> set (columns df) then Some (r c) else None)"

text \<open>\<^verbatim>\<open>df[c]\<close>: the column under label \<open>c\<close>, or \<^verbatim>\<open>KeyError\<close>.\<close>

definition get_col :: "dataframe \<Rightarrow> string \<Rightarrow> error + cell list" where
  "get_col df c =
     (if c \<in> set (columns df) then Inr (map (\<lambda>r. r c) (rows df)) else Inl (KeyError c))"

text \<open>
  \<^verbatim>\<open>df[c] = vs\<close>: the column is overwritten where it exists and appended as the last
  column otherwise. Every caller passes one value per row.
\<close>

definition set_col :: "dataframe \<Rightarrow> string \<Rightarrow> cell list \<Rightarrow> dataframe" where
  "set_col df c vs =
     \<lparr>columns = (if c \<in> set (columns df) then columns df else columns df @ [c]),
      rows = map (\<lambda>(r, v). r(c := v)) (zip (rows df) vs)\<rparr>"

text \<open>
  The comparison \<^verbatim>\<open>==\<close> of a cell with a value, as pandas evaluates it cell by cell:
  a missing value equals nothing, not even itself.
\<close>

definition series_eq :: "cell \<Rightarrow> cell \<Rightarrow> bool" where
  "series_eq a b = (a \<noteq> Missing \<and> b \<noteq> Missing \<and> a = b)"

definition series_ne :: "cell \<Rightarrow> cell \<Rightarrow> bool" where
  "series_ne a b = (\<not> series_eq a b)"

section \<open>The SLA classifier (dataprocess4.py)\<close>

definition tz_localize_none :: "timestamp \<Rightarrow> timestamp" where
  "tz_localize_none t = t\<lparr>tzinfo := None\<rparr>"

text \<open>
  Lines 48 to 51: reading \<^verbatim>\<open>.tzinfo\<close> works on a timestamp only; a text or a number
  has no such attribute.
\<close>

definition naive :: "cell \<Rightarrow> error + timestamp" where
  "naive c =
     (case c of
        Ts t \<Rightarrow> Inr (if tzinfo t \<noteq> None then tz_localize_none t else t)
      | _ \<Rightarrow> Inl AttributeError)"

definition total_seconds :: "int \<Rightarrow> real" where
  "total_seconds d = real_of_int d / 1000000000"

text \<open>
  Statements run in sequence until one raises: \<open>and_then\<close> passes a value on and
  lets an exception through.
\<close>

definition and_then :: "error + 'a \<Rightarrow> ('a \<Rightarrow> error + 'b) \<Rightarrow> error + 'b" where
  "and_then m f = (case m of Inl e \<Rightarrow> Inl e | Inr x \<Rightarrow> f x)"

text \<open>The body of the \<^verbatim>\<open>try\<close> block: every exception it can raise is a left value.\<close>

definition calculate_sla_body :: "series \<Rightarrow> error + string" where
  "calculate_sla_body row =
     and_then (getitem row ''Order Create Date & Time'') (\<lambda>c.
       if isna c then Inr ''NA''
       else and_then (getitem row ''Delivered At Date & Time'') (\<lambda>d.
         if isna d then Inr ''NA''
         else and_then (naive c) (\<lambda>create_time.
              and_then (naive d) (\<lambda>deliver_time.
                let delivery_time =
                      total_seconds (wall_ns deliver_time - wall_ns create_time) / 3600
                in and_then (getitem row ''Order Category'') (\<lambda>category.
                     let threshold =
                           (if series_eq category (Str ''F&B'') then 1
                            else if series_eq category (Str ''Grocery'') then 3
                            else 5 * 24)
                     in Inr (if delivery_time \<le> threshold then ''Within SLA''
                             else ''SLA Breached''))))))"

text \<open>
  \<^verbatim>\<open>except Exception\<close>: whatever the body raised becomes the status NA. (The message
  printed to the console is not part of the model.)
\<close>

definition calculate_sla_status :: "series \<Rightarrow> string" where
  "calculate_sla_status row =
     (case calculate_sla_body row of Inl e \<Rightarrow> ''NA'' | Inr s \<Rightarrow> s)"

section \<open>The SLA summary (dataprocess4.py)\<close>

text \<open>
  \<^verbatim>\<open>Series.unique()\<close>: the distinct values in the order of their first appearance,
  a missing value among them.
\<close>

definition unique :: "'a list \<Rightarrow> 'a list" where
  "unique xs = rev (remdups (rev xs))"

text \<open>
  A Python dictionary keeps its keys in insertion order: storing under a key that is
  there replaces the value in place, storing under a new key appends.
\<close>

fun dict_set :: "('k \<times> 'v) list \<Rightarrow> 'k \<Rightarrow> 'v \<Rightarrow> ('k \<times> 'v) list" where
  "dict_set [] k v = [(k, v)]"
| "dict_set ((k', v') # kvs) k v =
     (if k' = k then (k, v) # kvs else (k', v') # dict_set kvs k v)"

text \<open>
  \<^verbatim>\<open>round(2)\<close> is numpy's: scale by 100, round to the nearest integer with ties going
  to the even one, scale back.
\<close>

definition rint :: "real \<Rightarrow> int" where
  "rint x =
     (let n = \<lfloor>x\<rfloor>; frac = x - of_int n
      in if frac < 1 / 2 then n
         else if 1 / 2 < frac then n + 1
         else if even n then n else n + 1)"

definition round2 :: "real \<Rightarrow> real" where
  "round2 x = of_int (rint (x * 100)) / 100"

record sla_row =
  Status :: string
  Count :: nat
  Percentage :: real

text \<open>
  Lines 82 to 89: the two-row table of one category, from the number of rows within the
  SLA, the number of breaches and the number of valid orders.
\<close>

definition sla_summary_table :: "nat \<Rightarrow> nat \<Rightarrow> nat \<Rightarrow> sla_row list" where
  "sla_summary_table n_within n_breached n_valid =
     map (\<lambda>(s, n). \<lparr>Status = s, Count = n,
                     Percentage = round2 (real n / real n_valid * 100)\<rparr>)
       [(''Within SLA'', n_within), (''SLA Breached'', n_breached)]"

text \<open>\<^verbatim>\<open>df[df[c] == v]\<close> and \<^verbatim>\<open>df[df[c] != v]\<close>, on the rows.\<close>

definition rows_eq :: "string \<Rightarrow> cell \<Rightarrow> (string \<Rightarrow> cell) list \<Rightarrow> (string \<Rightarrow> cell) list" where
  "rows_eq c v rs = filter (\<lambda>r. series_eq (r c) v) rs"

definition rows_ne :: "string \<Rightarrow> cell \<Rightarrow> (string \<Rightarrow> cell) list \<Rightarrow> (string \<Rightarrow> cell) list" where
  "rows_ne c v rs = filter (\<lambda>r. series_ne (r c) v) rs"

text \<open>
  The body of the loop of lines 77 to 90 for one category: the table to store under the
  category, or \<open>None\<close> when one of the two length tests fails and nothing is stored.
\<close>

definition category_sla_summary :: "(string \<Rightarrow> cell) list \<Rightarrow> cell \<Rightarrow> sla_row list option" where
  "category_sla_summary rs category =
     (let category_df = rows_eq ''Order Category'' category rs
      in if length category_df > 0
         then (let valid_orders = rows_ne ''SLA_Status'' (Str ''NA'') category_df
               in if length valid_orders > 0
                  then Some (sla_summary_table
                               (length (rows_eq ''SLA_Status'' (Str ''Within SLA'') valid_orders))
                               (length (rows_eq ''SLA_Status'' (Str ''SLA Breached'') valid_orders))
                               (length valid_orders))
                  else None)
         else None)"

text \<open>The loop over the categories, with the dictionary built so far.\<close>

fun summary_loop ::
  "(string \<Rightarrow> cell) list \<Rightarrow> cell list \<Rightarrow> (cell \<times> sla_row list) list
     \<Rightarrow> (cell \<times> sla_row list) list" where
  "summary_loop rs [] sla_summaries = sla_summaries"
| "summary_loop rs (category # categories) sla_summaries =
     summary_loop rs categories
       (case category_sla_summary rs category of
          None \<Rightarrow> sla_summaries
        | Some sla_summary \<Rightarrow> dict_set sla_summaries category sla_summary)"

text \<open>
  \<^verbatim>\<open>df['SLA_Status'] = df.apply(calculate_sla_status, axis=1)\<close>: the caller's table
  itself gets the column.
\<close>

definition add_sla_status :: "dataframe \<Rightarrow> dataframe" where
  "add_sla_status df =
     set_col df ''SLA_Status''
       (map (\<lambda>r. Str (calculate_sla_status (row_series df r))) (rows df))"

text \<open>
  A function that is handed the table can change it, so each one returns the table as
  it leaves it, next to its result or the exception it raised.
\<close>

definition create_sla_summary ::
  "dataframe \<Rightarrow> dataframe \<times> (error + (cell \<times> sla_row list) list)" where
  "create_sla_summary df0 =
     (let df = add_sla_status df0
      in (df, and_then (get_col df ''Order Category'') (\<lambda>col.
                Inr (summary_loop (rows df) (unique col) []))))"

section \<open>The distribution charts (dataprocess4.py)\<close>

text \<open>
  \<^verbatim>\<open>Series.value_counts()\<close>: missing values are dropped; each remaining value gets the
  number of its occurrences; the largest count comes first.
\<close>

definition value_counts :: "cell list \<Rightarrow> (cell \<times> nat) list" where
  "value_counts xs =
     (let present = filter (\<lambda>c. \<not> isna c) xs
      in sort_key (\<lambda>(v, n). - int n)
           (map (\<lambda>v. (v, count_list present v)) (unique present)))"

text \<open>
  A chart is kept as the data it is drawn from: its kind, its title, one label and one
  number per slice or bar. Size and margins are not modelled.
\<close>

datatype chart = Pie | Bar

record figure =
  fig_kind :: chart
  fig_title :: string
  fig_names :: "cell list"
  fig_values :: "nat list"

definition counts_figure :: "chart \<Rightarrow> string \<Rightarrow> (cell \<times> nat) list \<Rightarrow> figure" where
  "counts_figure k t counts =
     \<lparr>fig_kind = k, fig_title = t, fig_names = map fst counts, fig_values = map snd counts\<rparr>"



definition create_ticket_status_tracker :: "dataframe \<Rightarrow> dataframe \<times> (error + figure)" where
  "create_ticket_status_tracker df =
     (df, and_then (get_col df ''Order Status'') (\<lambda>col.
            let status_counts = value_counts col
            in Inr (counts_figure Pie ''Order Status Distribution'' status_counts)))"

definition create_category_summary :: "dataframe \<Rightarrow> dataframe \<times> (error + figure)" where
  "create_category_summary df =
     (df, and_then (get_col df ''Order Category'') (\<lambda>col.
            let category_summary = value_counts col
            in Inr (counts_figure Bar ''Orders by Category'' category_summary)))"

definition create_city_summary :: "dataframe \<Rightarrow> dataframe \<times> (error + figure)" where
  "create_city_summary df =
     (df, and_then (get_col df ''Delivery City'') (\<lambda>col.
            let city_summary = value_counts col
            in Inr (counts_figure Pie ''Orders by City'' city_summary)))"



section \<open>Loading and the order dashboard (dataprocess4.py)\<close>
















section \<open>The ticket dashboard (ticket_analysis.py)\<close>

text \<open>
  The two regular expressions of the script are matched by hand. \<^verbatim>\<open>[\w.-]\<close> is a
  letter, a digit, an underscore, a dot or a hyphen.
\<close>

definition is_domain_char :: "char \<Rightarrow> bool" where
  "is_domain_char c =
     (let n = (of_char c :: nat)
      in (97 \<le> n \<and> n \<le> 122) \<or> (65 \<le> n \<and> n \<le> 90) \<or> (48 \<le> n \<and> n \<le> 57)
         \<or> c = CHR ''_'' \<or> c = CHR ''.'' \<or> c = CHR ''-'')"

text \<open>
  \<^verbatim>\<open>re.search(r"@([\w.-]+)", email)\<close>, returning group 1: the leftmost at-sign that has
  a domain character right after it, and the longest run of domain characters from there.
\<close>

fun search_domain :: "string \<Rightarrow> string option" where
  "search_domain [] = None"
| "search_domain (c # cs) =
     (if c = CHR ''@'' \<and> takeWhile is_domain_char cs \<noteq> []
      then Some (takeWhile is_domain_char cs)
      else search_domain cs)"

text \<open>\<^verbatim>\<open>re.search\<close> takes a string only: a number or a timestamp is a \<^verbatim>\<open>TypeError\<close>.\<close>

definition extract_email_domain :: "cell \<Rightarrow> error + string" where
  "extract_email_domain email =
     (if isna email then Inr ''Unknown''
      else (case email of
              Str s \<Rightarrow> (case search_domain s of Some g \<Rightarrow> Inr g | None \<Rightarrow> Inr ''Unknown'')
            | _ \<Rightarrow> Inl TypeError))"

text \<open>\<^verbatim>\<open>Series.apply(f)\<close>: \<open>f\<close> on every cell in turn, stopping at the first exception.\<close>

fun series_apply :: "(cell \<Rightarrow> error + 'a) \<Rightarrow> cell list \<Rightarrow> error + 'a list" where
  "series_apply f [] = Inr []"
| "series_apply f (c # cs) =
     and_then (f c) (\<lambda>y. and_then (series_apply f cs) (\<lambda>ys. Inr (y # ys)))"

text \<open>
  A pattern made of alternative literal words, searched anywhere in the text with
  \<^verbatim>\<open>case=False\<close>: two characters match when they are the same letter in either case.
\<close>

definition lower :: "char \<Rightarrow> char" where
  "lower c = (let n = (of_char c :: nat) in if 65 \<le> n \<and> n \<le> 90 then char_of (n + 32) else c)"

fun match_here :: "string \<Rightarrow> string \<Rightarrow> bool" where
  "match_here [] s = True"
| "match_here (p # ps) [] = False"
| "match_here (p # ps) (c # cs) = (lower p = lower c \<and> match_here ps cs)"

fun search_word :: "string \<Rightarrow> string \<Rightarrow> bool" where
  "search_word p [] = match_here p []"
| "search_word p (c # cs) = (match_here p (c # cs) \<or> search_word p cs)"

definition search_ignorecase :: "string list \<Rightarrow> string \<Rightarrow> bool" where
  "search_ignorecase alternatives s = list_ex (\<lambda>p. search_word p s) alternatives"

text \<open>
  The \<^verbatim>\<open>.str\<close> accessor is there for a column of texts only. \<^verbatim>\<open>read_csv\<close> types a
  column with no text in it as numbers, and a column without rows as texts.
\<close>

definition str_accessor :: "cell list \<Rightarrow> error + cell list" where
  "str_accessor col =
     (if col = [] \<or> list_ex (\<lambda>c. case c of Str s \<Rightarrow> True | _ \<Rightarrow> False) col
      then Inr col else Inl AttributeError)"

text \<open>
  \<^verbatim>\<open>.str.contains(pat, case=False, na=False).sum()\<close> and
  \<^verbatim>\<open>.str.startswith(prefix, na=False).sum()\<close>: a cell that is not a text gives the
  \<^verbatim>\<open>na\<close> value, which is false.
\<close>

definition str_contains_sum :: "string list \<Rightarrow> cell list \<Rightarrow> nat" where
  "str_contains_sum alternatives col =
     length (filter (\<lambda>c. case c of Str s \<Rightarrow> search_ignorecase alternatives s | _ \<Rightarrow> False) col)"

definition str_startswith_sum :: "string \<Rightarrow> cell list \<Rightarrow> nat" where
  "str_startswith_sum prefix col =
     length (filter (\<lambda>c. case c of Str s \<Rightarrow> take (length prefix) s = prefix | _ \<Rightarrow> False) col)"

record ticket_page =
  total_tickets :: nat
  open_tickets :: nat
  waiting_tickets :: nat
  fig_status :: figure
  fig_domains :: figure
  pattern_data :: "(string \<times> nat) list"
  ticket_details :: dataframe

text \<open>
  \<open>analyze_tickets\<close> writes the domain column into the table it is given, then reads
  the other columns. The bar chart of the patterns is drawn from \<open>pattern_data\<close> as it
  is.
\<close>

definition analyze_tickets :: "dataframe \<Rightarrow> dataframe \<times> (error + ticket_page)" where
  "analyze_tickets df0 =
     (case and_then (get_col df0 ''Contact ID'') (series_apply extract_email_domain) of
        Inl e \<Rightarrow> (df0, Inl e)
      | Inr domains \<Rightarrow>
          (let df = set_col df0 ''Email Domain'' (map Str domains)
           in (df,
               and_then (get_col df ''Status'') (\<lambda>status.
               let status_dist = value_counts status
               in and_then (get_col df ''Email Domain'') (\<lambda>domain.
               let domain_counts = take 10 (value_counts domain)
               in and_then (get_col df ''Subject'') (\<lambda>subject.
               and_then (str_accessor subject) (\<lambda>subject.
               let order_related = str_contains_sum [''order'', ''Order'', ''OID''] subject;
                   fwd_tickets = str_startswith_sum ''Fwd:'' subject
               in Inr \<lparr>total_tickets = length (rows df),
                       open_tickets = length (rows_eq ''Status'' (Str ''Open'') (rows df)),
                       waiting_tickets =
                         length (rows_eq ''Status'' (Str ''Waiting on Third Party'') (rows df)),
                       fig_status = counts_figure Pie ''Ticket Status Distribution'' status_dist,
                       fig_domains = counts_figure Bar ''Top 10 Email Domains'' domain_counts,
                       pattern_data = [(''Order Related'', order_related),
                                       (''Forwarded Tickets'', fwd_tickets)],
                       ticket_details = df\<rparr>)))))))"



section \<open>Sample tables\<close>

text \<open>
  Three orders: a grocery order delivered after exactly three hours, one delivered after
  four, and a food order that has not been delivered. The table has no column for the
  order value.
\<close>

definition sample_orders :: dataframe where
  "sample_orders =
     \<lparr>columns = [''Order Category'', ''Order Status'', ''Delivery City'',
                 ''Order Create Date & Time'', ''Delivered At Date & Time''],
      rows =
        [(\<lambda>c. Missing)(''Order Category'' := Str ''Grocery'',
            ''Order Status'' := Str ''Completed'',
            ''Delivery City'' := Str ''Pune'',
            ''Order Create Date & Time'' := Ts \<lparr>wall_ns = 0, tzinfo = None\<rparr>,
            ''Delivered At Date & Time'' := Ts \<lparr>wall_ns = 10800000000000, tzinfo = None\<rparr>),
         (\<lambda>c. Missing)(''Order Category'' := Str ''Grocery'',
            ''Order Status'' := Str ''Completed'',
            ''Order Create Date & Time'' := Ts \<lparr>wall_ns = 0, tzinfo = None\<rparr>,
            ''Delivered At Date & Time'' := Ts \<lparr>wall_ns = 14400000000000, tzinfo = None\<rparr>),
         (\<lambda>c. Missing)(''Order Category'' := Str ''F&B'',
            ''Order Status'' := Str ''Accepted'',
            ''Delivery City'' := Str ''Pune'',
            ''Order Create Date & Time'' := Ts \<lparr>wall_ns = 0, tzinfo = None\<rparr>)]\<rparr>"

text \<open>
  Three tickets: one about an order, a forwarded one that mentions a void cheque and has
  no contact, and one without a subject.
\<close>

definition sample_tickets :: dataframe where
  "sample_tickets =
     \<lparr>columns = [''Contact ID'', ''Subject'', ''Status''],
      rows =
        [(\<lambda>c. Missing)(''Contact ID'' := Str ''asha@example.com'',
            ''Subject'' := Str ''Order not received'',
            ''Status'' := Str ''Open''),
         (\<lambda>c. Missing)(''Subject'' := Str ''Fwd: void cheque'',
            ''Status'' := Str ''Open''),
         (\<lambda>c. Missing)(''Contact ID'' := Str ''ravi@shop.example.org'',
            ''Status'' := Str ''Closed'')]\<rparr>"

section \<open>Properties of the SLA classifier\<close>




text \<open>
  Claim C2. A row whose creation cell or delivery cell is missing (the cell holds a
  missing value, or the row has no such field at all) gets the status NA, whatever the
  other cells hold.
\<close>

theorem sla_status_missing_timestamp:
  assumes "row ''Order Create Date & Time'' = None
         \<or> row ''Order Create Date & Time'' = Some Missing
         \<or> row ''Delivered At Date & Time'' = None
         \<or> row ''Delivered At Date & Time'' = Some Missing"
  shows "calculate_sla_status row = ''NA''"
  using assms
  by (auto simp: calculate_sla_status_def calculate_sla_body_def and_then_def getitem_def
      isna_def Let_def split: sum.splits if_splits option.splits)

theorem sla_status_missing_timestamp_witness:
  "calculate_sla_status
     [''Order Create Date & Time'' \<mapsto> Ts \<lparr>wall_ns = 0, tzinfo = None\<rparr>,
      ''Delivered At Date & Time'' \<mapsto> Missing,
      ''Order Category'' \<mapsto> Str ''F&B''] = ''NA''"
  using sla_status_missing_timestamp [of
     "[''Order Create Date & Time'' \<mapsto> Ts \<lparr>wall_ns = 0, tzinfo = None\<rparr>,
      ''Delivered At Date & Time'' \<mapsto> Missing,
      ''Order Category'' \<mapsto> Str ''F&B'']"]
  by simp

lemma calculate_sla_status_range:
  "calculate_sla_status row \<in> {''NA'', ''Within SLA'', ''SLA Breached''}"
  by (auto simp: calculate_sla_status_def calculate_sla_body_def and_then_def Let_def
      split: sum.splits if_splits)

section \<open>Properties of the SLA summary\<close>

lemma rows_add_sla_status:
  "rows (add_sla_status df) =
     map (\<lambda>r. r(''SLA_Status'' := Str (calculate_sla_status (row_series df r)))) (rows df)"
  by (simp add: add_sla_status_def set_col_def zip_map2 zip_same_conv_map)

lemma columns_add_sla_status:
  "set (columns (add_sla_status df)) = insert ''SLA_Status'' (set (columns df))"
  by (auto simp: add_sla_status_def set_col_def)

lemma set_unique [simp]: "set (unique xs) = set xs"
  by (simp add: unique_def)

lemma distinct_unique [simp]: "distinct (unique xs)"
  by (simp add: unique_def)


lemma dict_set_entry:
  "(k', t) \<in> set (dict_set kvs k v) \<Longrightarrow> (k' = k \<and> t = v) \<or> (k', t) \<in> set kvs"
  by (induction kvs) (auto split: if_splits)



lemma summary_loop_entry:
  "(k, t) \<in> set (summary_loop rs cs acc) \<Longrightarrow>
     (k, t) \<in> set acc \<or> (k \<in> set cs \<and> category_sla_summary rs k = Some t)"
  by (induction cs arbitrary: acc) (auto split: option.splits dest: dict_set_entry)


lemma create_sla_summary_Inr:
  "(snd (create_sla_summary df) = Inr summaries) =
     (''Order Category'' \<in> set (columns df) \<and>
     summaries = summary_loop (rows (add_sla_status df))
              (unique (map (\<lambda>r. r ''Order Category'') (rows (add_sla_status df)))) [])"
  by (auto simp: create_sla_summary_def Let_def and_then_def get_col_def columns_add_sla_status)


lemma category_sla_summary_map:
  "category_sla_summary (map (\<lambda>r. r(''SLA_Status'' := Str (f r))) rs) k =
     (let n = length (filter (\<lambda>r. series_eq (r ''Order Category'') k \<and> f r \<noteq> ''NA'') rs)
      in if n > 0
         then Some (sla_summary_table
                (length (filter (\<lambda>r. series_eq (r ''Order Category'') k \<and> f r = ''Within SLA'') rs))
                (length (filter (\<lambda>r. series_eq (r ''Order Category'') k \<and> f r = ''SLA Breached'') rs))
                n)
         else None)"
proof -
  have within: "(\<lambda>r. series_eq (r ''Order Category'') k \<and> f r \<noteq> ''NA'' \<and> f r = ''Within SLA'')
      = (\<lambda>r. series_eq (r ''Order Category'') k \<and> f r = ''Within SLA'')"
    by auto
  have breached: "(\<lambda>r. series_eq (r ''Order Category'') k \<and> f r \<noteq> ''NA'' \<and> f r = ''SLA Breached'')
      = (\<lambda>r. series_eq (r ''Order Category'') k \<and> f r = ''SLA Breached'')"
    by auto
  have valid: "(\<lambda>r. f r \<noteq> ''NA'' \<and> series_eq (r ''Order Category'') k)
      = (\<lambda>r. series_eq (r ''Order Category'') k \<and> f r \<noteq> ''NA'')"
    by auto
  have empty: "filter (\<lambda>r. series_eq (r ''Order Category'') k) rs = [] \<Longrightarrow>
      filter (\<lambda>r. series_eq (r ''Order Category'') k \<and> f r \<noteq> ''NA'') rs = []"
    by (auto simp: filter_empty_conv)
  show ?thesis
    using empty
    by (simp add: category_sla_summary_def rows_eq_def rows_ne_def filter_map comp_def Let_def
        series_ne_def series_eq_def[of "Str _" "Str _"] within breached valid)
qed



lemma create_sla_summary_entry:
  assumes "snd (create_sla_summary df) = Inr summaries"
    and "(k, t) \<in> set summaries"
    and "f = (\<lambda>r. calculate_sla_status (row_series df r))"
  shows "0 < length (filter (\<lambda>r. series_eq (r ''Order Category'') k \<and> f r \<noteq> ''NA'') (rows df))
       \<and> t = sla_summary_table
               (length (filter (\<lambda>r. series_eq (r ''Order Category'') k \<and> f r = ''Within SLA'') (rows df)))
               (length (filter (\<lambda>r. series_eq (r ''Order Category'') k \<and> f r = ''SLA Breached'') (rows df)))
               (length (filter (\<lambda>r. series_eq (r ''Order Category'') k \<and> f r \<noteq> ''NA'') (rows df)))"
proof -
  let ?rs = "map (\<lambda>r. r(''SLA_Status'' := Str (f r))) (rows df)"
  have s: "summaries = summary_loop ?rs (unique (map (\<lambda>r. r ''Order Category'') ?rs)) []"
    using assms(1) by (simp add: create_sla_summary_Inr rows_add_sla_status assms(3))
  have "category_sla_summary ?rs k = Some t"
    using summary_loop_entry [of k t ?rs _ "[]"] assms(2) unfolding s by simp
  then show ?thesis
    unfolding category_sla_summary_map by (simp add: Let_def split: if_splits)
qed

lemma length_filter_split:
  assumes "\<And>x. x \<in> set xs \<Longrightarrow> R x \<longleftrightarrow> (P x \<or> Q x)"
    and "\<And>x. x \<in> set xs \<Longrightarrow> \<not> (P x \<and> Q x)"
  shows "length (filter P xs) + length (filter Q xs) = length (filter R xs)"
  using assms by (induction xs) auto



lemma sla_counts_add:
  "length (filter (\<lambda>r. series_eq (r ''Order Category'') k
                        \<and> calculate_sla_status (row_series df r) = ''Within SLA'') rs)
   + length (filter (\<lambda>r. series_eq (r ''Order Category'') k
                        \<and> calculate_sla_status (row_series df r) = ''SLA Breached'') rs)
   = length (filter (\<lambda>r. series_eq (r ''Order Category'') k
                        \<and> calculate_sla_status (row_series df r) \<noteq> ''NA'') rs)"
proof (rule length_filter_split)
  fix r
  show "(series_eq (r ''Order Category'') k \<and> calculate_sla_status (row_series df r) \<noteq> ''NA'')
      = ((series_eq (r ''Order Category'') k \<and> calculate_sla_status (row_series df r) = ''Within SLA'')
         \<or> (series_eq (r ''Order Category'') k \<and> calculate_sla_status (row_series df r) = ''SLA Breached''))"
    using calculate_sla_status_range [of "row_series df r"] by auto
  show "\<not> ((series_eq (r ''Order Category'') k \<and> calculate_sla_status (row_series df r) = ''Within SLA'')
         \<and> (series_eq (r ''Order Category'') k \<and> calculate_sla_status (row_series df r) = ''SLA Breached''))"
    by auto
qed


lemma sample_statuses:
  "map (\<lambda>r. calculate_sla_status (row_series sample_orders r)) (rows sample_orders)
     = [''Within SLA'', ''SLA Breached'', ''NA'']"
  by (simp add: sample_orders_def calculate_sla_status_def calculate_sla_body_def row_series_def
      getitem_def and_then_def isna_def naive_def total_seconds_def series_eq_def Let_def)

lemma rint_5000: "rint 5000 = 5000"
  by (simp add: rint_def)

lemma sample_orders_summary:
  "snd (create_sla_summary sample_orders) =
     Inr [(Str ''Grocery'',
           [\<lparr>Status = ''Within SLA'', Count = 1, Percentage = 50\<rparr>,
            \<lparr>Status = ''SLA Breached'', Count = 1, Percentage = 50\<rparr>])]"
  using sample_statuses
  apply (simp add: create_sla_summary_def Let_def and_then_def get_col_def add_sla_status_def set_col_def)
  apply (simp add: sample_orders_def unique_def category_sla_summary_def rows_eq_def rows_ne_def
       series_eq_def series_ne_def sla_summary_table_def round2_def rint_5000)
  done


text \<open>
  Claim C8. The classifier returns one of the three statuses NA, Within SLA and SLA
  Breached. So in a table that has got its status column, the rows whose status is not
  NA are the rows whose status is Within SLA or SLA Breached, and the two counts of the
  summary table of a category add up to the number of rows of the category whose status
  is not NA.
\<close>

theorem sla_counts_partition:
  "calculate_sla_status row \<in> {''NA'', ''Within SLA'', ''SLA Breached''}
   \<and> (\<forall>r \<in> set (rows (add_sla_status df)).
         series_ne (r ''SLA_Status'') (Str ''NA'') \<longleftrightarrow>
           (series_eq (r ''SLA_Status'') (Str ''Within SLA'')
            \<or> series_eq (r ''SLA_Status'') (Str ''SLA Breached'')))
   \<and> (snd (create_sla_summary df) = Inr summaries \<longrightarrow>
        (\<forall>(k, t) \<in> set summaries.
           sum_list (map Count t) =
             length (filter (\<lambda>r. series_eq (r ''Order Category'') k
                                  \<and> calculate_sla_status (row_series df r) \<noteq> ''NA'') (rows df))))"
proof (intro conjI ballI impI)
  show "calculate_sla_status row \<in> {''NA'', ''Within SLA'', ''SLA Breached''}"
    by (rule calculate_sla_status_range)
next
  fix r assume "r \<in> set (rows (add_sla_status df))"
  then obtain r0 where "r ''SLA_Status'' = Str (calculate_sla_status (row_series df r0))"
    by (auto simp: rows_add_sla_status)
  then show "series_ne (r ''SLA_Status'') (Str ''NA'') \<longleftrightarrow>
           (series_eq (r ''SLA_Status'') (Str ''Within SLA'')
            \<or> series_eq (r ''SLA_Status'') (Str ''SLA Breached''))"
    using calculate_sla_status_range [of "row_series df r0"]
    by (auto simp: series_ne_def series_eq_def)
next
  fix kt assume s: "snd (create_sla_summary df) = Inr summaries" and kt: "kt \<in> set summaries"
  obtain k t where [simp]: "kt = (k, t)" by (cases kt)
  note e = create_sla_summary_entry [OF s kt [simplified] refl]
  show "case kt of (k, t) \<Rightarrow> sum_list (map Count t) =
             length (filter (\<lambda>r. series_eq (r ''Order Category'') k
                                  \<and> calculate_sla_status (row_series df r) \<noteq> ''NA'') (rows df))"
    using e sla_counts_add [of k df "rows df"] by (simp add: sla_summary_table_def)
qed

theorem sla_counts_partition_witness:
  "calculate_sla_status Map.empty \<in> {''NA'', ''Within SLA'', ''SLA Breached''}
   \<and> length (filter (\<lambda>r. series_eq (r ''Order Category'') (Str ''Grocery'')
                          \<and> calculate_sla_status (row_series sample_orders r) \<noteq> ''NA'')
               (rows sample_orders)) = 2"
  using sla_counts_partition [of Map.empty sample_orders
      "[(Str ''Grocery'',
         [\<lparr>Status = ''Within SLA'', Count = 1, Percentage = 50\<rparr>,
          \<lparr>Status = ''SLA Breached'', Count = 1, Percentage = 50\<rparr>])]"]
    sample_orders_summary
  by simp





section \<open>Properties of the ticket dashboard\<close>

text \<open>
  Claim C7. The domain extracted from user@example.com is example.com; a missing
  contact and an empty contact both give Unknown.
\<close>

theorem extract_email_domain_examples:
  "extract_email_domain (Str ''user@example.com'') = Inr ''example.com''
   \<and> extract_email_domain Missing = Inr ''Unknown''
   \<and> extract_email_domain (Str '''') = Inr ''Unknown''"
  by (simp add: extract_email_domain_def isna_def is_domain_char_def)

section \<open>Evaluating the ticket sample\<close>

lemma sample_ticket_domains:
  "series_apply extract_email_domain (map (\<lambda>r. r ''Contact ID'') (rows sample_tickets))
     = Inr [''example.com'', ''Unknown'', ''shop.example.org'']"
  by (simp add: sample_tickets_def extract_email_domain_def isna_def is_domain_char_def and_then_def)

lemma sample_subject_matches:
  "search_ignorecase [''order'', ''Order'', ''OID''] ''Order not received''"
  "search_ignorecase [''order'', ''Order'', ''OID''] ''Fwd: void cheque''"
  by code_simp+

lemma sample_tickets_page:
  "\<exists>page. snd (analyze_tickets sample_tickets) = Inr page
      \<and> pattern_data page = [(''Order Related'', 2), (''Forwarded Tickets'', 1)]
      \<and> total_tickets page = 3 \<and> open_tickets page = 2 \<and> waiting_tickets page = 0
      \<and> fig_names (fig_status page) = [Str ''Open'', Str ''Closed'']
      \<and> fig_values (fig_status page) = [2, 1]"
  using sample_ticket_domains sample_subject_matches
  apply (simp add: analyze_tickets_def and_then_def get_col_def Let_def)
  apply (simp add: sample_tickets_def set_col_def str_accessor_def str_contains_sum_def
      str_startswith_sum_def rows_eq_def series_eq_def value_counts_def counts_figure_def
      unique_def isna_def)
  done

section \<open>Counts of the distribution charts\<close>

lemma sum_list_insort_key:
  "sum_list (map g (insort_key f x xs)) = (g x :: nat) + sum_list (map g xs)"
  by (induction xs) auto

lemma sum_list_sort_key: "sum_list (map g (sort_key f xs)) = (sum_list (map g xs) :: nat)"
  by (induction xs) (simp_all add: sum_list_insort_key)

lemma sum_count_unique: "sum_list (map (count_list ys) (unique ys)) = length ys"
proof -
  have "sum_list (map (count_list ys) (unique ys)) = sum (count_list ys) (set ys)"
    using sum_list_distinct_conv_sum_set [of "unique ys" "count_list ys"] by simp
  also have "\<dots> = length ys"
    by (rule sum_count_set) simp_all
  finally show ?thesis .
qed

lemma value_counts_sum:
  "sum_list (map snd (value_counts xs)) = length (filter (\<lambda>c. \<not> isna c) xs)"
  by (simp add: value_counts_def Let_def sum_list_sort_key comp_def sum_count_unique)

lemma counts_figure_values_sum:
  "sum_list (fig_values (counts_figure k t (value_counts (map (\<lambda>r. r c) rs))))
     = length (filter (\<lambda>r. \<not> isna (r c)) rs)"
  by (simp add: counts_figure_def value_counts_sum filter_map comp_def)

lemma series_apply_length: "series_apply f xs = Inr ys \<Longrightarrow> length ys = length xs"
  by (induction xs arbitrary: ys) (auto simp: and_then_def split: sum.splits)

lemma map_set_col_other:
  "length rs = length vs \<Longrightarrow> c' \<noteq> c \<Longrightarrow>
     map (\<lambda>r. r c') (map (\<lambda>(r, v). r(c := v)) (zip rs vs)) = map (\<lambda>r. r c') rs"
  by (induction rs vs rule: list_induct2) auto

lemma get_col_set_col_other:
  "c' \<noteq> c \<Longrightarrow> length vs = length (rows df) \<Longrightarrow> get_col (set_col df c vs) c' = get_col df c'"
  using map_set_col_other [of "rows df" vs c' c] by (auto simp: get_col_def set_col_def)

lemma analyze_tickets_status_chart:
  assumes "snd (analyze_tickets df) = Inr page"
  shows "fig_status page =
           counts_figure Pie ''Ticket Status Distribution''
             (value_counts (map (\<lambda>r. r ''Status'') (rows df)))"
  using assms
  by (auto simp: analyze_tickets_def and_then_def Let_def get_col_set_col_other
      series_apply_length get_col_def [of df] split: sum.splits if_splits)

text \<open>
  Claim C5. Whenever a distribution chart is produced (the order status, the category
  and the city chart of the order script, the status chart of the ticket script), its
  counts add up to the number of rows of the table whose cell in the grouped column is
  not missing.
\<close>

theorem distribution_counts_sum:
  "(snd (create_ticket_status_tracker df) = Inr fig1 \<longrightarrow>
      sum_list (fig_values fig1) = length (filter (\<lambda>r. \<not> isna (r ''Order Status'')) (rows df)))
   \<and> (snd (create_category_summary df) = Inr fig2 \<longrightarrow>
      sum_list (fig_values fig2) = length (filter (\<lambda>r. \<not> isna (r ''Order Category'')) (rows df)))
   \<and> (snd (create_city_summary df) = Inr fig3 \<longrightarrow>
      sum_list (fig_values fig3) = length (filter (\<lambda>r. \<not> isna (r ''Delivery City'')) (rows df)))
   \<and> (snd (analyze_tickets df) = Inr page \<longrightarrow>
      sum_list (fig_values (fig_status page)) = length (filter (\<lambda>r. \<not> isna (r ''Status'')) (rows df)))"
proof (intro conjI impI)
  assume "snd (create_ticket_status_tracker df) = Inr fig1"
  then have "fig1 = counts_figure Pie ''Order Status Distribution''
                      (value_counts (map (\<lambda>r. r ''Order Status'') (rows df)))"
    by (auto simp: create_ticket_status_tracker_def and_then_def get_col_def Let_def split: if_splits)
  then show "sum_list (fig_values fig1) = length (filter (\<lambda>r. \<not> isna (r ''Order Status'')) (rows df))"
    by (simp only: counts_figure_values_sum)
next
  assume "snd (create_category_summary df) = Inr fig2"
  then have "fig2 = counts_figure Bar ''Orders by Category''
                      (value_counts (map (\<lambda>r. r ''Order Category'') (rows df)))"
    by (auto simp: create_category_summary_def and_then_def get_col_def Let_def split: if_splits)
  then show "sum_list (fig_values fig2) = length (filter (\<lambda>r. \<not> isna (r ''Order Category'')) (rows df))"
    by (simp only: counts_figure_values_sum)
next
  assume "snd (create_city_summary df) = Inr fig3"
  then have "fig3 = counts_figure Pie ''Orders by City''
                      (value_counts (map (\<lambda>r. r ''Delivery City'') (rows df)))"
    by (auto simp: create_city_summary_def and_then_def get_col_def Let_def split: if_splits)
  then show "sum_list (fig_values fig3) = length (filter (\<lambda>r. \<not> isna (r ''Delivery City'')) (rows df))"
    by (simp only: counts_figure_values_sum)
next
  assume "snd (analyze_tickets df) = Inr page"
  then show "sum_list (fig_values (fig_status page)) = length (filter (\<lambda>r. \<not> isna (r ''Status'')) (rows df))"
    by (simp only: analyze_tickets_status_chart counts_figure_values_sum)
qed

theorem distribution_counts_sum_witness:
  "(\<exists>fig. snd (create_ticket_status_tracker sample_orders) = Inr fig \<and> sum_list (fig_values fig) = 3)
   \<and> (\<exists>fig. snd (create_category_summary sample_orders) = Inr fig \<and> sum_list (fig_values fig) = 3)
   \<and> (\<exists>fig. snd (create_city_summary sample_orders) = Inr fig \<and> sum_list (fig_values fig) = 2)
   \<and> (\<exists>page. snd (analyze_tickets sample_tickets) = Inr page
          \<and> sum_list (fig_values (fig_status page)) = 3)"
proof -
  obtain f1 where 1: "snd (create_ticket_status_tracker sample_orders) = Inr f1"
    by (simp add: create_ticket_status_tracker_def and_then_def get_col_def sample_orders_def)
  obtain f2 where 2: "snd (create_category_summary sample_orders) = Inr f2"
    by (simp add: create_category_summary_def and_then_def get_col_def sample_orders_def)
  obtain f3 where 3: "snd (create_city_summary sample_orders) = Inr f3"
    by (simp add: create_city_summary_def and_then_def get_col_def sample_orders_def)
  obtain page where 4: "snd (analyze_tickets sample_tickets) = Inr page"
    using sample_tickets_page by blast
  have n: "length (filter (\<lambda>r. \<not> isna (r ''Order Status'')) (rows sample_orders)) = 3"
    "length (filter (\<lambda>r. \<not> isna (r ''Order Category'')) (rows sample_orders)) = 3"
    "length (filter (\<lambda>r. \<not> isna (r ''Delivery City'')) (rows sample_orders)) = 2"
    "length (filter (\<lambda>r. \<not> isna (r ''Status'')) (rows sample_tickets)) = 3"
    by (simp_all add: sample_orders_def sample_tickets_def isna_def)
  from distribution_counts_sum [of sample_orders f1 f2 f3 page]
    distribution_counts_sum [of sample_tickets f1 f2 f3 page] 1 2 3 4 n
  show ?thesis by simp
qed

section \<open>The order-related pattern\<close>

lemma match_here_prefix:
  "match_here p s \<longleftrightarrow> (\<exists>v. map lower s = map lower p @ v)"
proof (induction p s rule: match_here.induct)
  case (3 p ps c cs)
  then show ?case by auto
qed auto

lemma search_word_sublist:
  "search_word p s \<longleftrightarrow> (\<exists>u v. map lower s = u @ map lower p @ v)"
proof (induction s)
  case Nil
  then show ?case by (simp add: match_here_prefix)
next
  case (Cons c cs)
  have "(\<exists>u v. map lower (c # cs) = u @ map lower p @ v) \<longleftrightarrow>
        (\<exists>v. map lower (c # cs) = map lower p @ v) \<or> (\<exists>u v. map lower cs = u @ map lower p @ v)"
    (is "?L \<longleftrightarrow> ?A \<or> ?B")
  proof
    assume ?L
    then obtain u v where uv: "map lower (c # cs) = u @ map lower p @ v" by blast
    show "?A \<or> ?B"
    proof (cases u)
      case Nil
      with uv show ?thesis by auto
    next
      case (Cons a u')
      with uv have "map lower cs = u' @ map lower p @ v" by simp
      then show ?thesis by blast
    qed
  next
    assume "?A \<or> ?B"
    then show ?L
    proof
      assume ?A
      then obtain v where "map lower (c # cs) = [] @ map lower p @ v" by auto
      then show ?L by blast
    next
      assume ?B
      then obtain u v where "map lower cs = u @ map lower p @ v" by blast
      then have "map lower (c # cs) = (lower c # u) @ map lower p @ v" by simp
      then show ?L by blast
    qed
  qed
  with Cons show ?case by (simp add: match_here_prefix)
qed

lemma lower_chars:
  "lower CHR ''o'' = CHR ''o''" "lower CHR ''r'' = CHR ''r''" "lower CHR ''d'' = CHR ''d''"
  "lower CHR ''e'' = CHR ''e''" "lower CHR ''O'' = CHR ''o''" "lower CHR ''I'' = CHR ''i''"
  "lower CHR ''D'' = CHR ''d''"
  by code_simp+

lemma order_pattern_meaning:
  "search_ignorecase [''order'', ''Order'', ''OID''] s \<longleftrightarrow>
     (\<exists>u v. map lower s = u @ ''order'' @ v) \<or> (\<exists>u v. map lower s = u @ ''oid'' @ v)"
  unfolding search_ignorecase_def by (simp add: search_word_sublist lower_chars)

lemma analyze_tickets_patterns:
  assumes "snd (analyze_tickets df) = Inr page"
  shows "pattern_data page =
           [(''Order Related'',
               str_contains_sum [''order'', ''Order'', ''OID''] (map (\<lambda>r. r ''Subject'') (rows df))),
            (''Forwarded Tickets'', str_startswith_sum ''Fwd:'' (map (\<lambda>r. r ''Subject'') (rows df)))]"
  using assms
  by (auto simp: analyze_tickets_def and_then_def Let_def get_col_set_col_other
      series_apply_length get_col_def [of df] str_accessor_def split: sum.splits if_splits)

text \<open>
  Claim C10. The Order Related count of the ticket page is the number of rows whose
  subject is a text that the pattern order|Order|OID matches with the case ignored,
  that is, a text which contains order or oid once it is put in lower case. So void and
  avoid match without any mention of an order, and a row whose subject is missing is
  not counted.
\<close>

theorem order_related_count:
  "(snd (analyze_tickets df) = Inr page \<longrightarrow>
      map_of (pattern_data page) ''Order Related'' =
        Some (length (filter (\<lambda>r. case r ''Subject'' of
                                    Str s \<Rightarrow> search_ignorecase [''order'', ''Order'', ''OID''] s
                                  | _ \<Rightarrow> False) (rows df))))
   \<and> (search_ignorecase [''order'', ''Order'', ''OID''] s \<longleftrightarrow>
        (\<exists>u v. map lower s = u @ ''order'' @ v) \<or> (\<exists>u v. map lower s = u @ ''oid'' @ v))
   \<and> search_ignorecase [''order'', ''Order'', ''OID''] ''void''
   \<and> search_ignorecase [''order'', ''Order'', ''OID''] ''avoid''"
proof (intro conjI impI)
  assume "snd (analyze_tickets df) = Inr page"
  then show "map_of (pattern_data page) ''Order Related'' =
        Some (length (filter (\<lambda>r. case r ''Subject'' of
                                    Str s \<Rightarrow> search_ignorecase [''order'', ''Order'', ''OID''] s
                                  | _ \<Rightarrow> False) (rows df)))"
    by (simp add: analyze_tickets_patterns str_contains_sum_def filter_map comp_def)
next
  show "search_ignorecase [''order'', ''Order'', ''OID''] s \<longleftrightarrow>
        (\<exists>u v. map lower s = u @ ''order'' @ v) \<or> (\<exists>u v. map lower s = u @ ''oid'' @ v)"
    by (rule order_pattern_meaning)
next
  show "search_ignorecase [''order'', ''Order'', ''OID''] ''void''" by code_simp
next
  show "search_ignorecase [''order'', ''Order'', ''OID''] ''avoid''" by code_simp
qed

theorem order_related_count_witness:
  "\<exists>page. snd (analyze_tickets sample_tickets) = Inr page
     \<and> map_of (pattern_data page) ''Order Related'' = Some 2
     \<and> length (filter (\<lambda>r. case r ''Subject'' of
                                    Str s \<Rightarrow> search_ignorecase [''order'', ''Order'', ''OID''] s
                                  | _ \<Rightarrow> False) (rows sample_tickets)) = 2
     \<and> length (rows sample_tickets) = 3"
proof -
  obtain page where p: "snd (analyze_tickets sample_tickets) = Inr page"
    and d: "pattern_data page = [(''Order Related'', 2), (''Forwarded Tickets'', 1)]"
    using sample_tickets_page by blast
  have "map_of (pattern_data page) ''Order Related'' = Some 2"
    by (simp add: d)
  moreover have "length (rows sample_tickets) = 3"
    by (simp add: sample_tickets_def)
  ultimately show ?thesis
    using p order_related_count [of sample_tickets page "''void''"] by auto
qed

section \<open>What the aggregators do to the table\<close>









section \<open>Tables that lack a column\<close>


















end
